theory Spec2Isabelle
  imports Complex_Main
begin

section \<open>Python text and numbers\<close>

text \<open>
  The tool is \<^verbatim>\<open>password_tool.py\<close>. A string is a list of characters, and a character
  is its code point; the type \<^typ>\<open>char\<close> holds the code points below 256. On these the
  functions below follow Python's tables: the blanks include U+0085 and U+00A0, the
  letters include those of the range U+00AA..U+00FF. Two upper-case forms leave the type
  and are not modelled: those of U+00B5 and U+00FF, which the model leaves unchanged.
  Python integers are \<^typ>\<open>int\<close>. Python floats are modelled by \<^typ>\<open>real\<close>: the rounding of
  \<^verbatim>\<open>math.log2\<close>, of products and of floor division is not modelled. Memory is unbounded.

  An exception is a value of \<open>py_error\<close>, and a function that can raise returns a sum with
  the error on the left.
\<close>

datatype py_error = ValueError | OverflowError | ZeroDivisionError | OtherError

definition code_of :: "char \<Rightarrow> nat" where
  "code_of c = of_char c"

definition py_isspace :: "char \<Rightarrow> bool" where
  \<comment> \<open>\<^verbatim>\<open>str.isspace\<close>: tab to carriage return, the separators 28..31, space, U+0085, U+00A0\<close>
  "py_isspace c =
     (let n = code_of c in (9 \<le> n \<and> n \<le> 13) \<or> (28 \<le> n \<and> n \<le> 32) \<or> n = 133 \<or> n = 160)"

definition int_isspace :: "char \<Rightarrow> bool" where
  \<comment> \<open>The blanks \<^verbatim>\<open>int()\<close> discards around a literal: it turns U+0085 and U+00A0 into
      spaces and then drops the blanks of C, so 28..31 are not among them.\<close>
  "int_isspace c = (let n = code_of c in (9 \<le> n \<and> n \<le> 13) \<or> n = 32 \<or> n = 133 \<or> n = 160)"

definition py_isdigit :: "char \<Rightarrow> bool" where
  \<comment> \<open>the decimal digits \<^verbatim>\<open>int()\<close> accepts: below 256 there are only 0..9\<close>
  "py_isdigit c = (let n = code_of c in 48 \<le> n \<and> n \<le> 57)"

definition py_isupper :: "char \<Rightarrow> bool" where
  \<comment> \<open>the upper-case letters: A..Z and U+00C0..U+00DE without the sign U+00D7\<close>
  "py_isupper c =
     (let n = code_of c in (65 \<le> n \<and> n \<le> 90) \<or> (192 \<le> n \<and> n \<le> 222 \<and> n \<noteq> 215))"

definition has_upper_char :: "char \<Rightarrow> bool" where
  \<comment> \<open>the letters whose upper-case form is one character below 256: a..z and
      U+00E0..U+00FE without the sign U+00F7\<close>
  "has_upper_char c =
     (let n = code_of c in (97 \<le> n \<and> n \<le> 122) \<or> (224 \<le> n \<and> n \<le> 254 \<and> n \<noteq> 247))"

definition py_isalpha :: "char \<Rightarrow> bool" where
  \<comment> \<open>\<^verbatim>\<open>str.isalpha\<close>; below 256 these are also the cased characters of \<^verbatim>\<open>str.title\<close>\<close>
  "py_isalpha c =
     (let n = code_of c in
      (65 \<le> n \<and> n \<le> 90) \<or> (97 \<le> n \<and> n \<le> 122) \<or> n = 170 \<or> n = 181 \<or> n = 186
      \<or> (192 \<le> n \<and> n \<le> 214) \<or> (216 \<le> n \<and> n \<le> 246) \<or> 248 \<le> n)"

definition lower_char :: "char \<Rightarrow> char" where
  "lower_char c = (if py_isupper c then char_of (code_of c + 32) else c)"

definition upper_char :: "char \<Rightarrow> char" where
  "upper_char c = (if has_upper_char c then char_of (code_of c - 32) else c)"

definition upper_str :: "char \<Rightarrow> string" where
  \<comment> \<open>\<^verbatim>\<open>ch.upper()\<close>: the sharp s, U+00DF, becomes two letters\<close>
  "upper_str c = (if code_of c = 223 then ''SS'' else [upper_char c])"

definition title_str :: "char \<Rightarrow> string" where
  \<comment> \<open>the title-case form of a character\<close>
  "title_str c = (if code_of c = 223 then ''Ss'' else [upper_char c])"

definition py_lower :: "string \<Rightarrow> string" where
  "py_lower s = map lower_char s"

definition py_upper :: "string \<Rightarrow> string" where
  "py_upper s = concat (map upper_str s)"

fun title_from :: "bool \<Rightarrow> string \<Rightarrow> string" where
  \<comment> \<open>\<^verbatim>\<open>str.title\<close>: the flag says whether the previous character was cased; a cased
      character after a cased one is lowered, any other cased character gets its title
      form\<close>
  "title_from prev [] = []"
| "title_from prev (c # cs) =
     (if py_isalpha c then (if prev then [lower_char c] else title_str c) @ title_from True cs
      else c # title_from False cs)"

definition py_title :: "string \<Rightarrow> string" where
  "py_title s = title_from False s"

definition strip_by :: "(char \<Rightarrow> bool) \<Rightarrow> string \<Rightarrow> string" where
  "strip_by blank s = rev (dropWhile blank (rev (dropWhile blank s)))"

definition py_strip :: "string \<Rightarrow> string" where
  "py_strip s = strip_by py_isspace s"

fun split_ws_from :: "string \<Rightarrow> string \<Rightarrow> string list" where
  \<comment> \<open>\<^verbatim>\<open>str.split()\<close>: runs of blanks separate the words, no empty word is produced\<close>
  "split_ws_from cur [] = (if cur = [] then [] else [cur])"
| "split_ws_from cur (c # cs) =
     (if py_isspace c then (if cur = [] then split_ws_from [] cs else cur # split_ws_from [] cs)
      else split_ws_from (cur @ [c]) cs)"

definition py_split :: "string \<Rightarrow> string list" where
  "py_split s = split_ws_from [] s"

fun split_on_from :: "char \<Rightarrow> string \<Rightarrow> string \<Rightarrow> string list" where
  \<comment> \<open>\<^verbatim>\<open>str.split(sep)\<close> for a one-character separator: empty pieces are kept\<close>
  "split_on_from sep cur [] = [cur]"
| "split_on_from sep cur (c # cs) =
     (if c = sep then cur # split_on_from sep [] cs else split_on_from sep (cur @ [c]) cs)"

definition py_split_on :: "char \<Rightarrow> string \<Rightarrow> string list" where
  "py_split_on sep s = split_on_from sep [] s"

definition py_split_once :: "char \<Rightarrow> string \<Rightarrow> string list" where
  \<comment> \<open>\<^verbatim>\<open>str.split(sep, 1)\<close>: cut at the first separator only\<close>
  "py_split_once sep s =
     (if sep \<in> set s then [takeWhile (\<lambda>c. c \<noteq> sep) s, tl (dropWhile (\<lambda>c. c \<noteq> sep) s)] else [s])"

definition py_replace :: "char \<Rightarrow> char \<Rightarrow> string \<Rightarrow> string" where
  "py_replace old new s = map (\<lambda>c. if c = old then new else c) s"

definition unpack2 :: "string list \<Rightarrow> py_error + string \<times> string" where
  \<comment> \<open>\<^verbatim>\<open>a, b = xs\<close> raises ValueError unless there are exactly two items\<close>
  "unpack2 xs = (case xs of [a, b] \<Rightarrow> Inr (a, b) | _ \<Rightarrow> Inl ValueError)"

fun str_nat :: "nat \<Rightarrow> string" where
  "str_nat n = (if n < 10 then [char_of (48 + n)] else str_nat (n div 10) @ [char_of (48 + n mod 10)])"

declare str_nat.simps [simp del]

definition py_str :: "int \<Rightarrow> string" where
  "py_str i = (if i < 0 then CHR ''-'' # str_nat (nat (- i)) else str_nat (nat i))"

definition last_two :: "string \<Rightarrow> string" where
  \<comment> \<open>the slice \<^verbatim>\<open>s[-2:]\<close>: the whole string when it has fewer than two characters\<close>
  "last_two s = drop (length s - 2) s"

fun int_digits_ok :: "string \<Rightarrow> bool" where
  \<comment> \<open>decimal digits, with single underscores allowed between two digits\<close>
  "int_digits_ok [] = False"
| "int_digits_ok [c] = py_isdigit c"
| "int_digits_ok (c # d # cs) =
     (py_isdigit c \<and> (if d = CHR ''_'' then int_digits_ok cs else int_digits_ok (d # cs)))"

definition digits_value :: "string \<Rightarrow> nat" where
  "digits_value ds = foldl (\<lambda>a c. 10 * a + (code_of c - 48)) 0 ds"

definition py_int :: "nat \<Rightarrow> string \<Rightarrow> py_error + int" where
  \<comment> \<open>\<^verbatim>\<open>int(s)\<close> for a string. \<open>max_str_digits\<close> is the interpreter's setting
      \<^verbatim>\<open>sys.get_int_max_str_digits()\<close> (0: no limit; it only applies beyond 640 digits).\<close>
  "py_int max_str_digits s =
     (let t = strip_by int_isspace s;
          neg = (t \<noteq> [] \<and> hd t = CHR ''-'');
          body = (if t \<noteq> [] \<and> (hd t = CHR ''-'' \<or> hd t = CHR ''+'') then tl t else t);
          ds = filter py_isdigit body
      in if \<not> int_digits_ok body then Inl ValueError
         else if 640 < length ds \<and> 0 < max_str_digits \<and> max_str_digits < length ds then Inl ValueError
         else Inr (if neg then - int (digits_value ds) else int (digits_value ds)))"

definition sys_maxsize :: int where
  \<comment> \<open>\<^verbatim>\<open>sys.maxsize\<close> of a 64-bit interpreter\<close>
  "sys_maxsize = 2 ^ 63 - 1"

definition py_range_list :: "int \<Rightarrow> int \<Rightarrow> py_error + int list" where
  \<comment> \<open>The items \<^verbatim>\<open>list.extend(range(a, b))\<close> appends. \<^verbatim>\<open>extend\<close> first asks the range for
      its length, which raises OverflowError when it does not fit a machine word.\<close>
  "py_range_list a b = (if sys_maxsize < b - a then Inl OverflowError else Inr [a..b - 1])"

section \<open>Year-range parsing\<close>

definition parse_part :: "nat \<Rightarrow> int list \<Rightarrow> string \<Rightarrow> py_error + int list" where
  \<comment> \<open>One round of the loop of \<^verbatim>\<open>parse_years\<close>: the list \<open>years\<close> after the entry
      \<open>part0\<close>. Only the two \<^verbatim>\<open>int\<close> conversions and the \<^verbatim>\<open>extend\<close> are inside
      \<^verbatim>\<open>try\<close>, and only ValueError is caught there.\<close>
  "parse_part max_str_digits years part0 =
     (let part = py_strip part0 in
      if part = [] then Inr years
      else if CHR ''-'' \<in> set part then
        (case unpack2 (py_split_once CHR ''-'' part) of
           Inl e \<Rightarrow> Inl e
         | Inr (start, end) \<Rightarrow>
             (case py_int max_str_digits start of
                Inl ValueError \<Rightarrow> Inr years
              | Inl e \<Rightarrow> Inl e
              | Inr a \<Rightarrow>
                  (case py_int max_str_digits end of
                     Inl ValueError \<Rightarrow> Inr years
                   | Inl e \<Rightarrow> Inl e
                   | Inr b \<Rightarrow>
                       (case py_range_list a (b + 1) of
                          Inl ValueError \<Rightarrow> Inr years
                        | Inl e \<Rightarrow> Inl e
                        | Inr ys \<Rightarrow> Inr (years @ ys)))))
      else
        (case py_int max_str_digits part of
           Inl ValueError \<Rightarrow> Inr years
         | Inl e \<Rightarrow> Inl e
         | Inr y \<Rightarrow> Inr (years @ [y])))"

fun parse_loop :: "nat \<Rightarrow> string list \<Rightarrow> int list \<Rightarrow> py_error + int list" where
  "parse_loop max_str_digits [] years = Inr years"
| "parse_loop max_str_digits (part # parts) years =
     (case parse_part max_str_digits years part of
        Inl e \<Rightarrow> Inl e
      | Inr years' \<Rightarrow> parse_loop max_str_digits parts years')"

definition year_in_bounds :: "int \<Rightarrow> bool" where
  "year_in_bounds y = (1900 \<le> y \<and> y \<le> 2100)"

definition parse_years :: "nat \<Rightarrow> int \<Rightarrow> string \<Rightarrow> py_error + int list" where
  \<comment> \<open>\<open>current_year\<close> is \<^verbatim>\<open>datetime.now().year\<close>\<close>
  "parse_years max_str_digits current_year years_arg =
     (case parse_loop max_str_digits (py_split_on CHR '','' years_arg) [] of
        Inl e \<Rightarrow> Inl e
      | Inr years \<Rightarrow>
          (let years' = (if years = [] then [current_year - 1, current_year, current_year + 1] else years)
           in Inr (sort (remdups (filter year_in_bounds years')))))"

section \<open>Sets of words\<close>

text \<open>
  A Python set of strings is modelled by the list of its elements without repetition, in
  the order of insertion. The interpreter enumerates a set in an order of its own (it
  depends on the hashes of the strings), so wherever the listing of a set reaches the
  output, the listing goes through the parameter \<open>iter_order\<close>. The intermediate sets
  are only read to build further sets, whose elements do not depend on the order.
\<close>

definition set_add :: "'a \<Rightarrow> 'a list \<Rightarrow> 'a list" where
  "set_add x s = (if x \<in> set s then s else s @ [x])"

definition set_update :: "'a list \<Rightarrow> 'a list \<Rightarrow> 'a list" where
  \<comment> \<open>\<^verbatim>\<open>s.update(xs)\<close>\<close>
  "set_update s xs = fold set_add xs s"

definition fromkeys :: "'a list \<Rightarrow> 'a list" where
  \<comment> \<open>\<^verbatim>\<open>list(dict.fromkeys(xs))\<close>: the first occurrence of every item, in order\<close>
  "fromkeys xs = fold set_add xs []"

definition py_slice_to :: "int \<Rightarrow> 'a list \<Rightarrow> 'a list" where
  \<comment> \<open>the slice \<^verbatim>\<open>xs[:k]\<close>: a negative \<open>k\<close> counts from the end\<close>
  "py_slice_to k xs = (if k < 0 then take (nat (int (length xs) + k)) xs else take (nat k) xs)"

section \<open>Token expansion\<close>

definition LEET_MAP :: "char \<Rightarrow> string list option" where
  "LEET_MAP = map_of
     [(CHR ''a'', [''4'', ''@'']),
      (CHR ''b'', [''8'']),
      (CHR ''e'', [''3'']),
      (CHR ''g'', [''6'', ''9'']),
      (CHR ''i'', [''1'', ''!'']),
      (CHR ''l'', [''1'', ''|'']),
      (CHR ''o'', [''0'']),
      (CHR ''s'', [''5'', ''$'']),
      (CHR ''t'', [''7'']),
      (CHR ''z'', [''2''])]"

definition tokenize_item :: "(string \<Rightarrow> py_error + string) option \<Rightarrow> string \<Rightarrow> string list" where
  \<comment> \<open>The tokens one input item appends. \<open>lemmatizer\<close> is the result of
      \<^verbatim>\<open>ensure_nltk()\<close>: \<open>None\<close> without NLTK, otherwise the function
      \<^verbatim>\<open>lemmatize\<close>, whose exceptions are swallowed.\<close>
  "tokenize_item lemmatizer item =
     concat (map (\<lambda>token0.
        let token = py_strip token0 in
        if token = [] then []
        else token # (case lemmatizer of
                        None \<Rightarrow> []
                      | Some lemmatize \<Rightarrow> (case lemmatize token of Inl e \<Rightarrow> [] | Inr l \<Rightarrow> [l])))
       (py_split (py_replace CHR ''-'' CHR '' '' (py_replace CHR ''_'' CHR '' '' item))))"

definition tokenize_inputs :: "(string \<Rightarrow> py_error + string) option \<Rightarrow> string list \<Rightarrow> string list" where
  "tokenize_inputs lemmatizer raw_inputs = fromkeys (concat (map (tokenize_item lemmatizer) raw_inputs))"

definition case_variants :: "string \<Rightarrow> string list" where
  "case_variants token =
     (let variants = fromkeys [py_lower token, py_upper token, py_title token] in
      if token \<noteq> [] \<and> py_isalpha (hd token) then set_add (upper_str (hd token) @ tl token) variants
      else variants)"

definition leet_options :: "char \<Rightarrow> string list" where
  \<comment> \<open>the list \<^verbatim>\<open>options\<close> of one character: itself, then its substitutes\<close>
  "leet_options ch = (case LEET_MAP (lower_char ch) of None \<Rightarrow> [[ch]] | Some subs \<Rightarrow> [ch] # subs)"

fun leet_loop :: "int \<Rightarrow> string list list \<Rightarrow> string list \<Rightarrow> string list" where
  \<comment> \<open>the loop over \<^verbatim>\<open>itertools.product\<close>, left when the set has \<open>max_variants\<close> elements\<close>
  "leet_loop max_variants [] variants = variants"
| "leet_loop max_variants (combo # combos) variants =
     (let variants' = set_add (concat combo) variants in
      if max_variants \<le> int (length variants') then variants'
      else leet_loop max_variants combos variants')"

definition apply_leetspeak :: "string \<Rightarrow> int \<Rightarrow> string list" where
  "apply_leetspeak token max_variants =
     leet_loop max_variants (product_lists (map leet_options token)) []"

definition append_years :: "string list \<Rightarrow> int list \<Rightarrow> string list" where
  "append_years tokens years =
     fold (\<lambda>token combos.
             fold (\<lambda>y c. set_add (token @ last_two (py_str y)) (set_add (token @ py_str y) c))
                  years (set_add token combos))
          tokens []"

definition permutations2 :: "'a list \<Rightarrow> ('a \<times> 'a) list" where
  \<comment> \<open>\<^verbatim>\<open>itertools.permutations(xs, 2)\<close>: the pairs of items at two different positions\<close>
  "permutations2 xs =
     concat (map (\<lambda>i. map (\<lambda>j. (xs ! i, xs ! j)) (filter (\<lambda>j. j \<noteq> i) [0..<length xs]))
                 [0..<length xs])"

definition add_separators :: "string list \<Rightarrow> string list \<Rightarrow> string list" where
  "add_separators tokens separators =
     fold (\<lambda>ab combos. fold (\<lambda>sep c. set_add (fst ab @ sep @ snd ab) c) separators combos)
          (permutations2 tokens) []"

definition expanded_variants :: "string list \<Rightarrow> bool \<Rightarrow> string list" where
  \<comment> \<open>the set \<^verbatim>\<open>expanded\<close> of \<^verbatim>\<open>build_wordlist\<close> after the loop over the base tokens\<close>
  "expanded_variants base_tokens include_leet =
     fold (\<lambda>token expanded.
             let expanded' = set_update expanded (case_variants token) in
             if include_leet then set_update expanded' (apply_leetspeak token 128) else expanded')
          base_tokens []"

definition expanded_joined :: "string list \<Rightarrow> string list \<Rightarrow> bool \<Rightarrow> string list" where
  \<comment> \<open>\<^verbatim>\<open>expanded\<close> after the separator-joined pairs have been added\<close>
  "expanded_joined base_tokens separators include_leet =
     (let expanded = expanded_variants base_tokens include_leet
      in set_update expanded (add_separators expanded separators))"

definition build_wordlist ::
  "(string list \<Rightarrow> string list) \<Rightarrow> (string \<Rightarrow> py_error + string) option \<Rightarrow>
   string list \<Rightarrow> int list \<Rightarrow> string list \<Rightarrow> bool \<Rightarrow> int \<Rightarrow> string list" where
  "build_wordlist iter_order lemmatizer user_inputs years separators include_leet max_size =
     (let base_tokens = tokenize_inputs lemmatizer user_inputs;
          expanded = append_years (expanded_joined base_tokens separators include_leet) years;
          wordlist = fromkeys (iter_order expanded)
      in if max_size < int (length wordlist) then py_slice_to max_size wordlist else wordlist)"

section \<open>Strength analysis\<close>

record StrengthResult =
  password :: string
  score :: int
  crack_time_display :: string
  feedback :: string
  entropy_bits :: real

definition py_truediv :: "real \<Rightarrow> real \<Rightarrow> py_error + real" where
  "py_truediv a b = (if b = 0 then Inl ZeroDivisionError else Inr (a / b))"

definition math_log2 :: "real \<Rightarrow> py_error + real" where
  \<comment> \<open>\<^verbatim>\<open>math.log2\<close> raises ValueError outside its domain\<close>
  "math_log2 x = (if x \<le> 0 then Inl ValueError else Inr (log 2 x))"

definition entropy_term :: "nat \<Rightarrow> nat \<Rightarrow> py_error + real" where
  \<comment> \<open>\<^verbatim>\<open>(c / length) * math.log2(c / length)\<close>\<close>
  "entropy_term c n =
     (case py_truediv (real c) (real n) of
        Inl e \<Rightarrow> Inl e
      | Inr p \<Rightarrow> (case math_log2 p of Inl e \<Rightarrow> Inl e | Inr l \<Rightarrow> Inr (p * l)))"

fun sum_from :: "real \<Rightarrow> (py_error + real) list \<Rightarrow> py_error + real" where
  \<comment> \<open>\<^verbatim>\<open>sum\<close> over a generator: the first term that raises ends the sum\<close>
  "sum_from acc [] = Inr acc"
| "sum_from acc (t # ts) = (case t of Inl e \<Rightarrow> Inl e | Inr x \<Rightarrow> sum_from (acc + x) ts)"

definition shannon_entropy :: "string \<Rightarrow> py_error + real" where
  "shannon_entropy pw =
     (if pw = [] then Inr 0
      else
        let freq = map (count_list pw) (remdups pw);
            n = length pw
        in case sum_from 0 (map (\<lambda>c. entropy_term c n) freq) of
             Inl e \<Rightarrow> Inl e
           | Inr s \<Rightarrow> Inr (- s * real n))"

definition char_space_or_1 :: "string \<Rightarrow> nat" where
  \<comment> \<open>\<^verbatim>\<open>char_space or 1\<close>, with \<^verbatim>\<open>char_space = len(set(password))\<close>\<close>
  "char_space_or_1 pw = (let char_space = card (set pw) in if char_space = 0 then 1 else char_space)"

definition naive_bits :: "string \<Rightarrow> py_error + real" where
  \<comment> \<open>the local \<^verbatim>\<open>naive_bits\<close> of the fallback branch of \<^verbatim>\<open>analyze_password\<close>\<close>
  "naive_bits pw =
     (case math_log2 (real (char_space_or_1 pw)) of
        Inl e \<Rightarrow> Inl e
      | Inr l \<Rightarrow> Inr (l * real (length pw)))"

record zxcvbn_result =
  zx_score :: "int option"
  zx_crack_time :: "string option"
  zx_warning :: "string option"
  zx_suggestions :: "string list option"

fun py_join :: "string \<Rightarrow> string list \<Rightarrow> string" where
  "py_join sep [] = []"
| "py_join sep [x] = x"
| "py_join sep (x # y # ys) = x @ sep @ py_join sep (y # ys)"

definition zxcvbn_feedback :: "zxcvbn_result \<Rightarrow> string" where
  "zxcvbn_feedback r =
     (let warning = (case zx_warning r of None \<Rightarrow> [] | Some w \<Rightarrow> w);
          suggestions = (case zx_suggestions r of None \<Rightarrow> [] | Some ss \<Rightarrow> ss);
          text = strip_by (\<lambda>c. c = CHR '' '' \<or> c = CHR ''.'') (py_join ''. '' (warning # suggestions))
      in if text = [] then ''No feedback'' else text)"

definition analyze_password ::
  "(string \<Rightarrow> string list \<Rightarrow> py_error + zxcvbn_result) option \<Rightarrow> string \<Rightarrow> string list option \<Rightarrow>
   py_error + StrengthResult" where
  \<comment> \<open>\<open>zxcvbn\<close> is the imported scorer, \<open>None\<close> when the import failed. The fields of its
      result are \<open>None\<close> where the dictionary has no such key.\<close>
  "analyze_password zxcvbn pw user_inputs =
     (let inputs = (case user_inputs of None \<Rightarrow> [] | Some xs \<Rightarrow> xs) in
      case shannon_entropy pw of
        Inl e \<Rightarrow> Inl e
      | Inr bits \<Rightarrow>
          (case zxcvbn of
             Some scorer \<Rightarrow>
               (case scorer pw inputs of
                  Inl e \<Rightarrow> Inl e
                | Inr r \<Rightarrow>
                    Inr \<lparr>password = pw,
                         score = (case zx_score r of None \<Rightarrow> 0 | Some s \<Rightarrow> s),
                         crack_time_display = (case zx_crack_time r of None \<Rightarrow> ''n/a'' | Some t \<Rightarrow> t),
                         feedback = zxcvbn_feedback r,
                         entropy_bits = bits\<rparr>)
           | None \<Rightarrow>
               (case naive_bits pw of
                  Inl e \<Rightarrow> Inl e
                | Inr nb \<Rightarrow>
                    Inr \<lparr>password = pw,
                         score = min 4 \<lfloor>nb / 20\<rfloor>,
                         crack_time_display = ''zxcvbn not installed; using heuristic'',
                         feedback = ''Install zxcvbn for richer analysis'',
                         entropy_bits = bits\<rparr>)))"

section \<open>Notions used to state the properties\<close>

text \<open>
  The entries the specification of \<^verbatim>\<open>parse_years\<close> speaks of: a single integer year is a
  text that \<^verbatim>\<open>int\<close> accepts, an inclusive range is two such texts around a dash. An entry
  parses when the loop of \<^verbatim>\<open>parse_years\<close> converts it.
\<close>

definition integer_text :: "nat \<Rightarrow> string \<Rightarrow> bool" where
  "integer_text max_str_digits s = (case py_int max_str_digits s of Inl e \<Rightarrow> False | Inr v \<Rightarrow> True)"

definition range_entry :: "nat \<Rightarrow> string \<Rightarrow> bool" where
  "range_entry max_str_digits p =
     list_ex (\<lambda>i. p ! i = CHR ''-'' \<and> integer_text max_str_digits (take i p)
                 \<and> integer_text max_str_digits (drop (Suc i) p)) [0..<length p]"

definition year_entry :: "nat \<Rightarrow> string \<Rightarrow> bool" where
  "year_entry max_str_digits p = (integer_text max_str_digits p \<or> range_entry max_str_digits p)"

definition entry_parses :: "nat \<Rightarrow> string \<Rightarrow> bool" where
  \<comment> \<open>The entry is parsed by the loop of \<^verbatim>\<open>parse_years\<close>: it is not blank and its
      conversions by \<^verbatim>\<open>int\<close> succeed, that of the whole entry when it has no dash, else
      those of the texts before and after its first dash.\<close>
  "entry_parses max_str_digits part0 =
     (let part = py_strip part0 in
      part \<noteq> [] \<and>
      (if CHR ''-'' \<in> set part
       then integer_text max_str_digits (takeWhile (\<lambda>c. c \<noteq> CHR ''-'') part)
            \<and> integer_text max_str_digits (tl (dropWhile (\<lambda>c. c \<noteq> CHR ''-'') part))
       else integer_text max_str_digits part))"

definition entropy_sum :: "string \<Rightarrow> real" where
  \<comment> \<open>the sum inside \<^verbatim>\<open>shannon_entropy\<close>, as a number\<close>
  "entropy_sum pw = (\<Sum>c\<leftarrow>map (count_list pw) (remdups pw).
                       real c / real (length pw) * log 2 (real c / real (length pw)))"

section \<open>Sets as lists\<close>

lemma set_set_add: "set (set_add x s) = insert x (set s)"
  by (auto simp: set_add_def)

lemma distinct_set_add: "distinct s \<Longrightarrow> distinct (set_add x s)"
  by (simp add: set_add_def)

lemma length_set_add: "length (set_add x s) \<le> Suc (length s)"
  by (simp add: set_add_def)

lemma set_fold_set_add: "set (fold set_add xs s) = set xs \<union> set s"
  by (induction xs arbitrary: s) (auto simp: set_set_add)

lemma distinct_fold_set_add: "distinct s \<Longrightarrow> distinct (fold set_add xs s)"
  by (induction xs arbitrary: s) (auto simp: distinct_set_add)

lemma set_fromkeys: "set (fromkeys xs) = set xs"
  by (simp add: fromkeys_def set_fold_set_add)

lemma distinct_fromkeys: "distinct (fromkeys xs)"
  by (simp add: fromkeys_def distinct_fold_set_add)

lemma length_fromkeys: "length (fromkeys xs) = card (set xs)"
  using distinct_card [OF distinct_fromkeys, of xs] by (simp add: set_fromkeys)

lemma length_py_slice_to: "0 \<le> k \<Longrightarrow> k < int (length xs) \<Longrightarrow> int (length (py_slice_to k xs)) = k"
  by (simp add: py_slice_to_def)

lemma distinct_py_slice_to: "distinct xs \<Longrightarrow> distinct (py_slice_to k xs)"
  by (simp add: py_slice_to_def)

lemma set_py_slice_to: "set (py_slice_to k xs) \<subseteq> set xs"
  by (simp add: py_slice_to_def set_take_subset)

section \<open>The wordlist\<close>

lemma set_years_of_token:
  "set (fold (\<lambda>y c. set_add (token @ last_two (py_str y)) (set_add (token @ py_str y) c)) years acc)
   = set acc \<union> (\<lambda>y. token @ py_str y) ` set years \<union> (\<lambda>y. token @ last_two (py_str y)) ` set years"
  by (induction years arbitrary: acc) (auto simp: set_set_add)

lemma set_append_years_from:
  "set (fold (\<lambda>token combos.
             fold (\<lambda>y c. set_add (token @ last_two (py_str y)) (set_add (token @ py_str y) c))
                  years (set_add token combos)) tokens acc)
   = set acc \<union> set tokens
     \<union> (\<Union>t \<in> set tokens. (\<lambda>y. t @ py_str y) ` set years \<union> (\<lambda>y. t @ last_two (py_str y)) ` set years)"
  by (induction tokens arbitrary: acc) (auto simp: set_years_of_token set_set_add)

lemma set_append_years:
  "set (append_years tokens years)
   = set tokens \<union> (\<Union>t \<in> set tokens. (\<lambda>y. t @ py_str y) ` set years \<union> (\<lambda>y. t @ last_two (py_str y)) ` set years)"
  by (simp add: append_years_def set_append_years_from)

lemma distinct_years_of_token:
  "distinct acc \<Longrightarrow>
   distinct (fold (\<lambda>y c. set_add (token @ last_two (py_str y)) (set_add (token @ py_str y) c)) years acc)"
  by (induction years arbitrary: acc) (simp_all add: distinct_set_add)

lemma distinct_append_years_from:
  "distinct acc \<Longrightarrow>
   distinct (fold (\<lambda>token combos.
             fold (\<lambda>y c. set_add (token @ last_two (py_str y)) (set_add (token @ py_str y) c))
                  years (set_add token combos)) tokens acc)"
  by (induction tokens arbitrary: acc) (simp_all add: distinct_years_of_token distinct_set_add)

lemma distinct_append_years: "distinct (append_years tokens years)"
  by (simp add: append_years_def distinct_append_years_from)

lemma build_wordlist_subset:
  assumes "\<And>xs. set (iter_order xs) = set xs"
  shows "set (build_wordlist iter_order lemmatizer user_inputs years separators include_leet max_size)
         \<subseteq> set (append_years (expanded_joined (tokenize_inputs lemmatizer user_inputs) separators include_leet) years)"
  using set_py_slice_to [of max_size "fromkeys (iter_order (append_years (expanded_joined (tokenize_inputs lemmatizer user_inputs) separators include_leet) years))"]
  by (auto simp: build_wordlist_def Let_def set_fromkeys assms)

lemma build_wordlist_all:
  assumes "\<And>xs. set (iter_order xs) = set xs"
    and "int (length (append_years (expanded_joined (tokenize_inputs lemmatizer user_inputs) separators include_leet) years)) \<le> max_size"
  shows "set (build_wordlist iter_order lemmatizer user_inputs years separators include_leet max_size)
         = set (append_years (expanded_joined (tokenize_inputs lemmatizer user_inputs) separators include_leet) years)"
proof -
  let ?A = "append_years (expanded_joined (tokenize_inputs lemmatizer user_inputs) separators include_leet) years"
  have "length (fromkeys (iter_order ?A)) = card (set ?A)" by (simp add: length_fromkeys assms(1))
  also have "\<dots> \<le> length ?A" by (rule card_length)
  finally have "\<not> max_size < int (length (fromkeys (iter_order ?A)))" using assms(2) by simp
  then show ?thesis by (simp add: build_wordlist_def Let_def set_fromkeys assms(1))
qed

text \<open>
  C1. The claim: for every sequence of user inputs, years, separators, leetspeak setting and
  every \<open>max_size\<close>, the list \<^verbatim>\<open>build_wordlist\<close> returns has at most \<open>max_size\<close> entries
  and no entry twice. As amended: this holds for every \<open>max_size\<close> that is not negative,
  whatever order the interpreter lists the set in and with or without a lemmatizer. (No
  list is shorter than a negative \<open>max_size\<close>; the slice \<^verbatim>\<open>wordlist[:max_size]\<close> then drops
  entries from the end.)
\<close>

theorem build_wordlist_bounded:
  assumes "0 \<le> max_size"
  shows "int (length (build_wordlist iter_order lemmatizer user_inputs years separators include_leet max_size)) \<le> max_size
       \<and> distinct (build_wordlist iter_order lemmatizer user_inputs years separators include_leet max_size)"
  using assms
  by (simp add: build_wordlist_def Let_def length_py_slice_to distinct_py_slice_to distinct_fromkeys)

theorem build_wordlist_bounded_witness:
  "(0::int) \<le> 10
   \<and> int (length (build_wordlist id None [''Rex''] [2024] [''''] True 10)) \<le> 10
   \<and> distinct (build_wordlist id None [''Rex''] [2024] [''''] True 10)"
  using build_wordlist_bounded [of 10 id None "[''Rex'']" "[2024]" "['''']" True] by simp

text \<open>With \<open>max_size = -1\<close> the claim fails: the list has 47 of the 48 words.\<close>

theorem build_wordlist_negative_size:
  "\<not> int (length (build_wordlist id None [''Rex''] [2024] [''''] True (- 1))) \<le> - 1"
  by simp

lemma rex_tokens: "tokenize_inputs None [''Rex''] = [''Rex'']"
  by code_simp

lemma rex_variants: "expanded_variants [''Rex''] True = [''rex'', ''REX'', ''Rex'', ''R3x'']"
  by code_simp

lemma rex_pairs:
  "add_separators [''rex'', ''REX'', ''Rex'', ''R3x''] [''''] =
     [''rexREX'', ''rexRex'', ''rexR3x'', ''REXrex'', ''REXRex'', ''REXR3x'',
      ''Rexrex'', ''RexREX'', ''RexR3x'', ''R3xrex'', ''R3xREX'', ''R3xRex'']"
  by code_simp

lemma rex_joined:
  "expanded_joined [''Rex''] [''''] True =
     [''rex'', ''REX'', ''Rex'', ''R3x'',
      ''rexREX'', ''rexRex'', ''rexR3x'', ''REXrex'', ''REXRex'', ''REXR3x'',
      ''Rexrex'', ''RexREX'', ''RexR3x'', ''R3xrex'', ''R3xREX'', ''R3xRex'']"
  by (simp add: expanded_joined_def rex_variants rex_pairs set_update_def set_add_def)

lemma str_2024: "py_str 2024 = ''2024''"
  by code_simp

lemma last_two_2024: "last_two ''2024'' = ''24''"
  by code_simp

lemma rex_years:
  "append_years (expanded_joined [''Rex''] [''''] True) [2024] =
     [''rex'', ''rex2024'', ''rex24'', ''REX'', ''REX2024'', ''REX24'',
      ''Rex'', ''Rex2024'', ''Rex24'', ''R3x'', ''R3x2024'', ''R3x24'',
      ''rexREX'', ''rexREX2024'', ''rexREX24'', ''rexRex'', ''rexRex2024'', ''rexRex24'',
      ''rexR3x'', ''rexR3x2024'', ''rexR3x24'', ''REXrex'', ''REXrex2024'', ''REXrex24'',
      ''REXRex'', ''REXRex2024'', ''REXRex24'', ''REXR3x'', ''REXR3x2024'', ''REXR3x24'',
      ''Rexrex'', ''Rexrex2024'', ''Rexrex24'', ''RexREX'', ''RexREX2024'', ''RexREX24'',
      ''RexR3x'', ''RexR3x2024'', ''RexR3x24'', ''R3xrex'', ''R3xrex2024'', ''R3xrex24'',
      ''R3xREX'', ''R3xREX2024'', ''R3xREX24'', ''R3xRex'', ''R3xRex2024'', ''R3xRex24'']"
  by (simp add: rex_joined append_years_def str_2024 last_two_2024 set_add_def)

lemma rex_negative_size_length:
  "length (build_wordlist id None [''Rex''] [2024] [''''] True (- 1)) = 47"
proof -
  let ?A = "append_years (expanded_joined [''Rex''] [''''] True) [2024]"
  have "card (set ?A) = length ?A" by (rule distinct_card) (rule distinct_append_years)
  then have "length (fromkeys ?A) = 48" by (simp add: length_fromkeys rex_years)
  then show ?thesis by (simp add: build_wordlist_def rex_tokens py_slice_to_def)
qed

lemma rex_in_tokens: "''Rex'' \<in> set (tokenize_inputs lemmatizer [''Rex''])"
proof -
  have sp: "py_split (py_replace CHR ''-'' CHR '' '' (py_replace CHR ''_'' CHR '' '' ''Rex'')) = [''Rex'']"
    by code_simp
  have st: "py_strip ''Rex'' = ''Rex''"
    by code_simp
  show ?thesis
    by (simp add: tokenize_inputs_def tokenize_item_def sp st set_fromkeys Let_def)
qed

lemma set_set_update: "set (set_update s xs) = set s \<union> set xs"
  by (auto simp: set_update_def set_fold_set_add)

lemma set_expanded_variants_from:
  "set (fold (\<lambda>token expanded.
               let expanded' = set_update expanded (case_variants token) in
               if include_leet then set_update expanded' (apply_leetspeak token 128) else expanded')
             tokens acc)
   = set acc \<union> (\<Union>t \<in> set tokens.
        set (case_variants t) \<union> (if include_leet then set (apply_leetspeak t 128) else {}))"
  by (induction tokens arbitrary: acc) (auto simp: Let_def set_set_update)

lemma set_expanded_variants:
  "set (expanded_variants tokens include_leet)
   = (\<Union>t \<in> set tokens.
        set (case_variants t) \<union> (if include_leet then set (apply_leetspeak t 128) else {}))"
  by (simp add: expanded_variants_def set_expanded_variants_from)

lemma set_expanded_joined:
  "set (expanded_variants tokens include_leet) \<subseteq> set (expanded_joined tokens separators include_leet)"
  by (simp add: expanded_joined_def Let_def set_set_update)

lemma rex_case_variants: "case_variants ''Rex'' = [''rex'', ''REX'', ''Rex'']"
  by code_simp

lemma rex_leet: "apply_leetspeak ''Rex'' 128 = [''Rex'', ''R3x'']"
  by code_simp

lemma rex_words_joined:
  "{''rex'', ''REX'', ''Rex'', ''R3x''}
   \<subseteq> set (expanded_joined (tokenize_inputs lemmatizer [''Rex'']) separators True)"
proof -
  have "set (case_variants ''Rex'') \<union> set (apply_leetspeak ''Rex'' 128)
        \<subseteq> set (expanded_variants (tokenize_inputs lemmatizer [''Rex'']) True)"
    using rex_in_tokens [of lemmatizer] by (auto simp: set_expanded_variants)
  then have "{''rex'', ''REX'', ''Rex'', ''R3x''}
        \<subseteq> set (expanded_variants (tokenize_inputs lemmatizer [''Rex'']) True)"
    by (simp add: rex_case_variants rex_leet)
  then show ?thesis
    using set_expanded_joined [of "tokenize_inputs lemmatizer [''Rex'']" True separators] by blast
qed

lemma with_year_2024:
  "t \<in> set tokens \<Longrightarrow> t @ ''2024'' \<in> set (append_years tokens [2024])"
  using str_2024 by (auto simp: set_append_years)

text \<open>
  C6. With inputs \<^verbatim>\<open>["Rex"]\<close>, years \<^verbatim>\<open>[2024]\<close>, separators \<^verbatim>\<open>[""]\<close> and leetspeak
  enabled, the wordlist \<^verbatim>\<open>build_wordlist\<close> returns at its default size 50000 includes
  \<^verbatim>\<open>rex2024\<close>, \<^verbatim>\<open>REX2024\<close> and \<^verbatim>\<open>Rex2024\<close>, and it includes a leetspeak variant: \<^verbatim>\<open>R3x\<close> is
  one of the variants \<^verbatim>\<open>apply_leetspeak\<close> gives for \<^verbatim>\<open>Rex\<close>, and \<^verbatim>\<open>R3x2024\<close> is in the
  list. This holds in any listing order of the set, and with or without a lemmatizer as
  long as no more than 50000 words are built, so that none is cut off. Without a
  lemmatizer 48 words are built.
\<close>

theorem build_wordlist_rex:
  assumes "\<And>xs. set (iter_order xs) = set xs"
    and "int (length (append_years (expanded_joined (tokenize_inputs lemmatizer [''Rex'']) [''''] True) [2024]))
         \<le> 50000"
  shows "''rex2024'' \<in> set (build_wordlist iter_order lemmatizer [''Rex''] [2024] [''''] True 50000)
       \<and> ''REX2024'' \<in> set (build_wordlist iter_order lemmatizer [''Rex''] [2024] [''''] True 50000)
       \<and> ''Rex2024'' \<in> set (build_wordlist iter_order lemmatizer [''Rex''] [2024] [''''] True 50000)
       \<and> ''R3x'' \<in> set (apply_leetspeak ''Rex'' 128)
       \<and> ''R3x2024'' \<in> set (build_wordlist iter_order lemmatizer [''Rex''] [2024] [''''] True 50000)"
proof -
  let ?J = "expanded_joined (tokenize_inputs lemmatizer [''Rex'']) [''''] True"
  have all: "set (build_wordlist iter_order lemmatizer [''Rex''] [2024] [''''] True 50000)
             = set (append_years ?J [2024])"
    using assms by (rule build_wordlist_all)
  have J: "''rex'' \<in> set ?J" "''REX'' \<in> set ?J" "''Rex'' \<in> set ?J" "''R3x'' \<in> set ?J"
    using rex_words_joined [of lemmatizer "['''']"] by auto
  have "''rex'' @ ''2024'' \<in> set (append_years ?J [2024])"
    and "''REX'' @ ''2024'' \<in> set (append_years ?J [2024])"
    and "''Rex'' @ ''2024'' \<in> set (append_years ?J [2024])"
    and "''R3x'' @ ''2024'' \<in> set (append_years ?J [2024])"
    using with_year_2024 [OF J(1)] with_year_2024 [OF J(2)] with_year_2024 [OF J(3)]
      with_year_2024 [OF J(4)]
    by simp_all
  then show ?thesis by (simp add: all rex_leet)
qed

theorem build_wordlist_rex_witness:
  "(\<forall>xs::string list. set (id xs) = set xs)
   \<and> length (append_years (expanded_joined (tokenize_inputs None [''Rex'']) [''''] True) [2024]) = 48
   \<and> ''rex2024'' \<in> set (build_wordlist id None [''Rex''] [2024] [''''] True 50000)
   \<and> ''REX2024'' \<in> set (build_wordlist id None [''Rex''] [2024] [''''] True 50000)
   \<and> ''Rex2024'' \<in> set (build_wordlist id None [''Rex''] [2024] [''''] True 50000)
   \<and> ''R3x'' \<in> set (apply_leetspeak ''Rex'' 128)
   \<and> ''R3x2024'' \<in> set (build_wordlist id None [''Rex''] [2024] [''''] True 50000)"
  using build_wordlist_rex [of id None] by (simp add: rex_tokens rex_years)

text \<open>
  Without a lemmatizer the lower-case form \<^verbatim>\<open>r3x2024\<close> is not in the list: the
  substitutions are applied to the token as typed and not to its case variants.
\<close>

lemma rex_no_lowercase_leet:
  "''r3x2024'' \<notin> set (build_wordlist id None [''Rex''] [2024] [''''] True 50000)"
proof -
  have "set (build_wordlist id None [''Rex''] [2024] [''''] True 50000)
        = set (append_years (expanded_joined [''Rex''] [''''] True) [2024])"
    using build_wordlist_all [of id None "[''Rex'']" "['''']" True "[2024]" 50000]
    by (simp add: rex_tokens rex_years)
  then show ?thesis by (simp add: rex_years)
qed

section \<open>Leetspeak\<close>

lemma leet_loop_distinct: "distinct vs \<Longrightarrow> distinct (leet_loop mv cs vs)"
  by (induction cs arbitrary: vs) (auto simp: Let_def distinct_set_add)

lemma leet_loop_length: "int (length (leet_loop mv cs vs)) \<le> max mv (int (length vs) + 1)"
proof (induction cs arbitrary: vs)
  case Nil
  then show ?case by simp
next
  case (Cons c cs)
  let ?vs = "set_add (concat c) vs"
  have le: "length ?vs \<le> Suc (length vs)" by (rule length_set_add)
  show ?case
  proof (cases "mv \<le> int (length ?vs)")
    case True
    then show ?thesis using le by (simp add: Let_def)
  next
    case False
    then have "max mv (int (length ?vs) + 1) = mv" by simp
    with Cons.IH [of ?vs] False show ?thesis by (simp add: Let_def)
  qed
qed

text \<open>
  C7. The claim: for every token, \<^verbatim>\<open>apply_leetspeak\<close> returns at most \<open>max_variants\<close>
  (default 128) variants, however many characters of the token can be substituted. As
  amended: it returns a set of at most \<open>max (1, max_variants)\<close> variants, hence at most
  \<open>max_variants\<close> whenever \<open>max_variants\<close> is at least 1, as the default is. (The size is
  tested after a variant has been added, so one variant is always returned.)
\<close>

theorem apply_leetspeak_fanout:
  "distinct (apply_leetspeak token max_variants)
   \<and> int (length (apply_leetspeak token max_variants)) \<le> max 1 max_variants"
  using leet_loop_length [of max_variants "product_lists (map leet_options token)" "[]"]
  by (simp add: apply_leetspeak_def leet_loop_distinct max.commute)

text \<open>With \<open>max_variants = 0\<close> the claim fails: one variant is returned.\<close>

theorem apply_leetspeak_zero_cap:
  "apply_leetspeak ''a'' 0 = [''a''] \<and> \<not> int (length (apply_leetspeak ''a'' 0)) \<le> 0"
  by code_simp

lemma leet_loop_keeps: "x \<in> set vs \<Longrightarrow> x \<in> set (leet_loop mv cs vs)"
  by (induction cs arbitrary: vs) (auto simp: Let_def set_set_add)

lemma leet_options_head: "\<exists>subs. leet_options ch = [ch] # subs"
  by (simp add: leet_options_def split: option.splits)

lemma product_identity_first:
  "\<exists>rest. product_lists (map leet_options token) = map (\<lambda>ch. [ch]) token # rest"
proof (induction token)
  case Nil
  then show ?case by simp
next
  case (Cons ch token)
  obtain subs where o: "leet_options ch = [ch] # subs" using leet_options_head by blast
  from Cons obtain rest where r: "product_lists (map leet_options token) = map (\<lambda>ch. [ch]) token # rest"
    by blast
  show ?case by (simp add: o r)
qed

lemma concat_singletons: "concat (map (\<lambda>ch. [ch]) token) = token"
  by (induction token) auto

text \<open>
  C8. For every token, the set \<^verbatim>\<open>apply_leetspeak\<close> returns contains the token itself,
  unchanged, whatever the cap \<open>max_variants\<close> is: the first combination of the product is
  the token, and it is added before the cap is tested.
\<close>

theorem apply_leetspeak_identity: "token \<in> set (apply_leetspeak token max_variants)"
proof -
  obtain rest where r: "product_lists (map leet_options token) = map (\<lambda>ch. [ch]) token # rest"
    using product_identity_first by blast
  have "token \<in> set (set_add token [])" by (simp add: set_set_add)
  then show ?thesis
    by (simp add: apply_leetspeak_def r Let_def concat_singletons leet_loop_keeps)
qed

section \<open>Year suffixes\<close>

text \<open>
  C9. For every token given to \<^verbatim>\<open>append_years\<close> and every year \<open>y\<close> of the list, the
  result contains the token itself, the token followed by the full year, and the token
  followed by the last two characters of the year, \<^verbatim>\<open>str(y)[-2:]\<close>.
\<close>

theorem append_years_two_digit:
  assumes "token \<in> set tokens" and "y \<in> set years"
  shows "token \<in> set (append_years tokens years)
       \<and> token @ py_str y \<in> set (append_years tokens years)
       \<and> token @ last_two (py_str y) \<in> set (append_years tokens years)"
  using assms by (auto simp: set_append_years)

theorem append_years_two_digit_witness:
  "''rex'' \<in> set [''rex''] \<and> (2024::int) \<in> set [2024]
   \<and> ''rex'' \<in> set (append_years [''rex''] [2024])
   \<and> ''rex2024'' \<in> set (append_years [''rex''] [2024])
   \<and> ''rex24'' \<in> set (append_years [''rex''] [2024])"
  using append_years_two_digit [of "''rex''" "[''rex'']" 2024 "[2024]"]
  by (simp add: str_2024 last_two_2024)

section \<open>Parsing the years\<close>

lemma py_int_cases: "py_int m s = Inl ValueError \<or> (\<exists>v. py_int m s = Inr v)"
  by (simp add: py_int_def Let_def)

lemma integer_text_iff: "integer_text m s \<longleftrightarrow> (\<exists>v. py_int m s = Inr v)"
  using py_int_cases [of m s] by (auto simp: integer_text_def)

lemma not_integer_text: "\<not> integer_text m s \<Longrightarrow> py_int m s = Inl ValueError"
  using py_int_cases [of m s] by (auto simp: integer_text_def)

lemma split_once_parts:
  assumes "sep \<in> set s"
  shows "s ! length (takeWhile (\<lambda>c. c \<noteq> sep) s) = sep"
    and "length (takeWhile (\<lambda>c. c \<noteq> sep) s) < length s"
    and "take (length (takeWhile (\<lambda>c. c \<noteq> sep) s)) s = takeWhile (\<lambda>c. c \<noteq> sep) s"
    and "drop (Suc (length (takeWhile (\<lambda>c. c \<noteq> sep) s))) s = tl (dropWhile (\<lambda>c. c \<noteq> sep) s)"
proof -
  let ?a = "takeWhile (\<lambda>c. c \<noteq> sep) s"
  let ?b = "dropWhile (\<lambda>c. c \<noteq> sep) s"
  have s: "s = ?a @ ?b" by simp
  have ne: "?b \<noteq> []" using assms by (simp add: dropWhile_eq_Nil_conv)
  then have hd: "hd ?b = sep" using hd_dropWhile [of "\<lambda>c. c \<noteq> sep" s] by auto
  from ne hd obtain r where b: "?b = sep # r" by (cases ?b) auto
  show "s ! length ?a = sep"
    by (metis b nth_append_length s)
  show "length ?a < length s"
  proof -
    have "length s = length ?a + length ?b" by (metis s length_append)
    with b show ?thesis by simp
  qed
  show "take (length ?a) s = ?a"
    by (metis append_eq_conv_conj s)
  show "drop (Suc (length ?a)) s = tl ?b"
    by (metis append_eq_conv_conj b drop_Suc list.sel(3) s tl_drop)
qed

lemma parse_part_unparsed:
  assumes "\<not> entry_parses m p"
  shows "parse_part m years p = Inr years"
proof -
  let ?q = "py_strip p"
  show ?thesis
  proof (cases "?q = []")
    case True
    then show ?thesis by (simp add: parse_part_def)
  next
    case False
    show ?thesis
    proof (cases "CHR ''-'' \<in> set ?q")
      case dash: True
      let ?a = "takeWhile (\<lambda>c. c \<noteq> CHR ''-'') ?q"
      let ?b = "tl (dropWhile (\<lambda>c. c \<noteq> CHR ''-'') ?q)"
      from assms False dash have "\<not> (integer_text m ?a \<and> integer_text m ?b)"
        by (simp add: entry_parses_def Let_def)
      then consider "py_int m ?a = Inl ValueError"
        | v where "py_int m ?a = Inr v" and "py_int m ?b = Inl ValueError"
        using py_int_cases [of m ?a] py_int_cases [of m ?b] by (auto simp: integer_text_iff)
      then show ?thesis
      proof cases
        case 1
        then show ?thesis using False dash
          by (simp add: parse_part_def py_split_once_def unpack2_def)
      next
        case 2
        then show ?thesis using False dash
          by (simp add: parse_part_def py_split_once_def unpack2_def)
      qed
    next
      case nodash: False
      from assms False nodash have "\<not> integer_text m ?q"
        by (simp add: entry_parses_def Let_def)
      from not_integer_text [OF this] show ?thesis using False nodash
        by (simp add: parse_part_def)
    qed
  qed
qed

lemma parsed_is_year_entry:
  assumes "entry_parses m p"
  shows "year_entry m (py_strip p)"
proof (cases "CHR ''-'' \<in> set (py_strip p)")
  case dash: True
  let ?q = "py_strip p"
  let ?a = "takeWhile (\<lambda>c. c \<noteq> CHR ''-'') ?q"
  let ?b = "tl (dropWhile (\<lambda>c. c \<noteq> CHR ''-'') ?q)"
  from assms dash have both: "integer_text m ?a \<and> integer_text m ?b"
    by (simp add: entry_parses_def Let_def)
  have "range_entry m ?q"
    unfolding range_entry_def list_ex_iff
    using split_once_parts [OF dash] both
    by (intro bexI [where x = "length ?a"]) simp_all
  then show ?thesis by (simp add: year_entry_def)
next
  case False
  with assms show ?thesis by (simp add: entry_parses_def Let_def year_entry_def)
qed

lemma parse_part_skips:
  assumes "\<not> year_entry m (py_strip p)"
  shows "parse_part m years p = Inr years"
  using assms parsed_is_year_entry parse_part_unparsed by blast

lemma parse_loop_all_skipped:
  assumes "\<forall>p \<in> set parts. \<not> entry_parses m p"
  shows "parse_loop m parts years = Inr years"
  using assms by (induction parts) (simp_all add: parse_part_unparsed)

lemma py_int_value_error: "py_int m s = Inl e \<Longrightarrow> e = ValueError"
  using py_int_cases [of m s] by auto

lemma py_range_list_error: "py_range_list a b = Inl e \<Longrightarrow> e = OverflowError"
  by (simp add: py_range_list_def split: if_splits)

lemma parse_part_no_value_error: "parse_part m years p \<noteq> Inl ValueError"
proof (cases "py_strip p = []")
  case True
  then show ?thesis by (simp add: parse_part_def)
next
  case ne: False
  show ?thesis
  proof (cases "CHR ''-'' \<in> set (py_strip p)")
    case True
    let ?a = "takeWhile (\<lambda>c. c \<noteq> CHR ''-'') (py_strip p)"
    let ?b = "tl (dropWhile (\<lambda>c. c \<noteq> CHR ''-'') (py_strip p))"
    have u: "unpack2 (py_split_once CHR ''-'' (py_strip p)) = Inr (?a, ?b)"
      using True by (simp add: py_split_once_def unpack2_def)
    have body: "parse_part m years p =
        (case py_int m ?a of
           Inl ValueError \<Rightarrow> Inr years
         | Inl e \<Rightarrow> Inl e
         | Inr a \<Rightarrow>
             (case py_int m ?b of
                Inl ValueError \<Rightarrow> Inr years
              | Inl e \<Rightarrow> Inl e
              | Inr b \<Rightarrow>
                  (case py_range_list a (b + 1) of
                     Inl ValueError \<Rightarrow> Inr years
                   | Inl e \<Rightarrow> Inl e
                   | Inr ys \<Rightarrow> Inr (years @ ys))))"
      using True ne by (simp add: parse_part_def Let_def u)
    show ?thesis
      unfolding body
      by (auto split: sum.splits py_error.splits dest: py_int_value_error py_range_list_error)
  next
    case False
    then have body: "parse_part m years p =
        (case py_int m (py_strip p) of
           Inl ValueError \<Rightarrow> Inr years
         | Inl e \<Rightarrow> Inl e
         | Inr y \<Rightarrow> Inr (years @ [y]))"
      using ne by (simp add: parse_part_def Let_def)
    show ?thesis
      unfolding body
      by (auto split: sum.splits py_error.splits dest: py_int_value_error)
  qed
qed

lemma parse_loop_no_value_error: "parse_loop m parts years \<noteq> Inl ValueError"
proof (induction parts arbitrary: years)
  case Nil
  then show ?case by simp
next
  case (Cons p parts)
  show ?case
  proof (cases "parse_part m years p")
    case (Inl e)
    then have "e \<noteq> ValueError" using parse_part_no_value_error [of m years p] by auto
    then show ?thesis using Inl by simp
  next
    case (Inr ys)
    then show ?thesis using Cons.IH [of ys] by simp
  qed
qed

lemma parse_years_no_value_error: "parse_years m cy s \<noteq> Inl ValueError"
proof (cases "parse_loop m (py_split_on CHR '','' s) []")
  case (Inl e)
  then have "e \<noteq> ValueError" using parse_loop_no_value_error [of m "py_split_on CHR '','' s" "[]"] by auto
  then show ?thesis using Inl by (simp add: parse_years_def)
next
  case (Inr ys)
  then show ?thesis by (simp add: parse_years_def Let_def)
qed

lemma window_filter:
  "sort (remdups (filter year_in_bounds [cy - 1, cy, cy + 1])) = filter year_in_bounds [cy - 1, cy, cy + 1]"
  by (simp add: year_in_bounds_def)

lemma parse_years_result:
  assumes "parse_years m cy s = Inr zs"
  shows "distinct zs \<and> sorted zs \<and> (\<forall>y \<in> set zs. 1900 \<le> y \<and> y \<le> 2100)"
  using assms
  by (auto simp: parse_years_def Let_def year_in_bounds_def split: sum.splits if_splits)

lemma parse_loop_empty_text: "parse_loop m (py_split_on CHR '','' '''') [] = Inr []"
  by code_simp

text \<open>
  C2. The claim: \<^verbatim>\<open>parse_years("1990-1992,2024")\<close> is exactly the years 1990, 1991, 1992 and
  2024, and \<^verbatim>\<open>parse_years("")\<close> is the window of the three years around the current year.
  As amended: the first part as stated; \<^verbatim>\<open>parse_years("")\<close> is the years of that window
  that lie within 1900..2100, which is the whole window when the current year is between
  1901 and 2099. (The bound is applied to the default window as well.)
\<close>

theorem parse_years_examples:
  "parse_years m cy ''1990-1992,2024'' = Inr [1990, 1991, 1992, 2024]
   \<and> parse_years m cy '''' = Inr (filter year_in_bounds [cy - 1, cy, cy + 1])
   \<and> (1901 \<le> cy \<and> cy \<le> 2099 \<longrightarrow> parse_years m cy '''' = Inr [cy - 1, cy, cy + 1])"
proof (intro conjI)
  show "parse_years m cy ''1990-1992,2024'' = Inr [1990, 1991, 1992, 2024]" by code_simp
  show "parse_years m cy '''' = Inr (filter year_in_bounds [cy - 1, cy, cy + 1])"
    by (simp add: parse_years_def parse_loop_empty_text window_filter del: filter.simps)
  show "1901 \<le> cy \<and> cy \<le> 2099 \<longrightarrow> parse_years m cy '''' = Inr [cy - 1, cy, cy + 1]"
    by (simp add: parse_years_def parse_loop_empty_text year_in_bounds_def)
qed

theorem parse_years_examples_witness:
  "(1901::int) \<le> 2026 \<and> (2026::int) \<le> 2099
   \<and> parse_years 4300 2026 ''1990-1992,2024'' = Inr [1990, 1991, 1992, 2024]
   \<and> parse_years 4300 2026 '''' = Inr [2025, 2026, 2027]"
  using parse_years_examples [of 4300 2026] by (simp add: year_in_bounds_def)

text \<open>In the year 2100 the empty string does not give the window 2099, 2100, 2101.\<close>

theorem parse_years_window_clipped:
  "parse_years 4300 2100 '''' = Inr [2099, 2100]
   \<and> parse_years 4300 2100 '''' \<noteq> Inr [2100 - 1, 2100, 2100 + 1]"
  by code_simp

text \<open>
  C3. The claim: for every input of \<^verbatim>\<open>parse_years\<close>, an entry that is neither a single
  integer year nor an inclusive integer range is skipped without an exception, the list
  returned has only years within 1900..2100 and no year twice, and if no entry parses the
  result is the window of three years centred on the current year. As amended: the first
  three parts as stated (such an entry is not parsed and leaves the list of years as it
  is, as does every entry that is not parsed, \<^verbatim>\<open>-5\<close> among them; no ValueError leaves the
  function; every list returned is within the bound and free of duplicates); if no entry
  parses, the result is the years of the window that lie within 1900..2100, which is the
  whole window when the current year is between 1901 and 2099.
\<close>

theorem parse_years_contract:
  "(\<not> year_entry m (py_strip p) \<longrightarrow> \<not> entry_parses m p \<and> parse_part m years p = Inr years)
   \<and> (\<not> entry_parses m p \<longrightarrow> parse_part m years p = Inr years)
   \<and> parse_years m cy s \<noteq> Inl ValueError
   \<and> (parse_years m cy s = Inr zs \<longrightarrow> distinct zs \<and> (\<forall>y \<in> set zs. 1900 \<le> y \<and> y \<le> 2100))
   \<and> ((\<forall>e \<in> set (py_split_on CHR '','' s). \<not> entry_parses m e) \<longrightarrow>
        parse_years m cy s = Inr (filter year_in_bounds [cy - 1, cy, cy + 1]))
   \<and> ((\<forall>e \<in> set (py_split_on CHR '','' s). \<not> entry_parses m e) \<and> 1901 \<le> cy \<and> cy \<le> 2099 \<longrightarrow>
        parse_years m cy s = Inr [cy - 1, cy, cy + 1])"
proof (intro conjI impI)
  assume "\<not> year_entry m (py_strip p)"
  then show "\<not> entry_parses m p" using parsed_is_year_entry by blast
next
  assume "\<not> year_entry m (py_strip p)"
  then show "parse_part m years p = Inr years" by (rule parse_part_skips)
next
  assume "\<not> entry_parses m p"
  then show "parse_part m years p = Inr years" by (rule parse_part_unparsed)
next
  show "parse_years m cy s \<noteq> Inl ValueError" by (rule parse_years_no_value_error)
next
  assume "parse_years m cy s = Inr zs"
  then show "distinct zs" using parse_years_result by blast
next
  assume "parse_years m cy s = Inr zs"
  then show "\<forall>y \<in> set zs. 1900 \<le> y \<and> y \<le> 2100" using parse_years_result by blast
next
  assume "\<forall>e \<in> set (py_split_on CHR '','' s). \<not> entry_parses m e"
  then have "parse_loop m (py_split_on CHR '','' s) [] = Inr []" by (rule parse_loop_all_skipped)
  then show "parse_years m cy s = Inr (filter year_in_bounds [cy - 1, cy, cy + 1])"
    by (simp add: parse_years_def window_filter del: filter.simps)
next
  assume a: "(\<forall>e \<in> set (py_split_on CHR '','' s). \<not> entry_parses m e) \<and> 1901 \<le> cy \<and> cy \<le> 2099"
  then have "parse_loop m (py_split_on CHR '','' s) [] = Inr []" by (simp add: parse_loop_all_skipped)
  then show "parse_years m cy s = Inr [cy - 1, cy, cy + 1]"
    using a by (simp add: parse_years_def year_in_bounds_def)
qed

lemma skipped_entry_example: "\<not> year_entry 4300 (py_strip '' 19x0 '')"
  by code_simp

lemma skipped_entries_split:
  "py_split_on CHR '','' ''abc,,20-1x, x-5,-5'' = [''abc'', '''', ''20-1x'', '' x-5'', ''-5'']"
  by code_simp

lemma skipped_entries_example:
  "\<not> entry_parses 4300 ''abc'' \<and> \<not> entry_parses 4300 ''''
   \<and> \<not> entry_parses 4300 ''20-1x'' \<and> \<not> entry_parses 4300 '' x-5''
   \<and> \<not> entry_parses 4300 ''-5''"
  by code_simp

theorem parse_years_contract_witness:
  "\<not> year_entry 4300 (py_strip '' 19x0 '')
   \<and> py_split_on CHR '','' ''abc,,20-1x, x-5,-5'' = [''abc'', '''', ''20-1x'', '' x-5'', ''-5'']
   \<and> \<not> entry_parses 4300 ''abc'' \<and> \<not> entry_parses 4300 ''''
   \<and> \<not> entry_parses 4300 ''20-1x'' \<and> \<not> entry_parses 4300 '' x-5''
   \<and> \<not> entry_parses 4300 ''-5''
   \<and> (1901::int) \<le> 2026 \<and> (2026::int) \<le> 2099
   \<and> \<not> entry_parses 4300 '' 19x0 ''
   \<and> parse_part 4300 [2000] '' 19x0 '' = Inr [2000]
   \<and> parse_part 4300 [2000] ''-5'' = Inr [2000]
   \<and> parse_years 4300 2026 ''abc,,20-1x, x-5,-5'' = Inr [2025, 2026, 2027]
   \<and> distinct [2025, 2026, 2027 :: int]
   \<and> 1900 \<le> (2025::int) \<and> (2027::int) \<le> 2100"
  using parse_years_contract [of 4300 "'' 19x0 ''" "[2000]" 2026 "''abc,,20-1x, x-5,-5''" "[2025, 2026, 2027]"]
    parse_years_contract [of 4300 "''-5''" "[2000]" 2026 "''abc,,20-1x, x-5,-5''" "[2025, 2026, 2027]"]
    skipped_entry_example skipped_entries_example
  by (simp add: year_in_bounds_def skipped_entries_split)

text \<open>
  Blanks around an entry are dropped, U+00A0 and U+0085 among them; the entry \<^verbatim>\<open>-5\<close> is an
  integer text that the loop does not parse, its part before the dash being empty.
\<close>

lemma parse_years_blanks:
  "parse_years m cy (CHR 0xA0 # ''1990'' @ [CHR 0x85]) = Inr [1990]
   \<and> parse_years m cy ('' 1990 - 1992 , 2024 '') = Inr [1990, 1991, 1992, 2024]"
  by code_simp

lemma parse_years_minus_five:
  "integer_text 4300 ''-5'' \<and> \<not> entry_parses 4300 ''-5''
   \<and> parse_years 4300 2026 ''-5'' = Inr [2025, 2026, 2027]"
  by code_simp

text \<open>In the year 2100 an input without a valid entry does not give the whole window.\<close>

theorem parse_years_no_entry_window_clipped:
  "py_split_on CHR '','' ''abc'' = [''abc'']
   \<and> \<not> year_entry 4300 (py_strip ''abc'')
   \<and> \<not> entry_parses 4300 ''abc''
   \<and> parse_years 4300 2100 ''abc'' = Inr [2099, 2100]
   \<and> parse_years 4300 2100 ''abc'' \<noteq> Inr [2100 - 1, 2100, 2100 + 1]"
  by code_simp

lemma set_append_no_years: "set (append_years tokens []) = set tokens"
  by (simp add: set_append_years)

text \<open>
  C10. There is an input for which \<^verbatim>\<open>parse_years\<close> returns the empty list: \<^verbatim>\<open>"1800"\<close>.
  Whenever the entries yield at least one year and every year they yield is outside
  1900..2100, the default window is not applied and the result is empty. Given the empty
  list of years, every word \<^verbatim>\<open>build_wordlist\<close> returns is one of the case, leetspeak and
  separator variants: no word has a year attached.
\<close>

theorem parse_years_can_be_empty:
  assumes "\<And>xs. set (iter_order xs) = set xs"
  shows "parse_years m cy ''1800'' = Inr []
   \<and> (parse_loop m (py_split_on CHR '','' s) [] = Inr ys \<and> ys \<noteq> [] \<and> (\<forall>y \<in> set ys. \<not> year_in_bounds y)
       \<longrightarrow> parse_years m cy s = Inr [])
   \<and> set (build_wordlist iter_order lemmatizer user_inputs [] separators include_leet max_size)
       \<subseteq> set (expanded_joined (tokenize_inputs lemmatizer user_inputs) separators include_leet)"
proof (intro conjI)
  show "parse_years m cy ''1800'' = Inr []" by code_simp
  show "parse_loop m (py_split_on CHR '','' s) [] = Inr ys \<and> ys \<noteq> [] \<and> (\<forall>y \<in> set ys. \<not> year_in_bounds y)
       \<longrightarrow> parse_years m cy s = Inr []"
    by (simp add: parse_years_def)
  show "set (build_wordlist iter_order lemmatizer user_inputs [] separators include_leet max_size)
       \<subseteq> set (expanded_joined (tokenize_inputs lemmatizer user_inputs) separators include_leet)"
    using build_wordlist_subset [OF assms, of lemmatizer user_inputs "[]" separators include_leet max_size]
    by (simp add: set_append_no_years)
qed

lemma out_of_bounds_example:
  "parse_loop 4300 (py_split_on CHR '','' ''1800,2200-2201'') [] = Inr [1800, 2200, 2201]"
  by code_simp

theorem parse_years_can_be_empty_witness:
  "(\<forall>xs::string list. set (id xs) = set xs)
   \<and> parse_loop 4300 (py_split_on CHR '','' ''1800,2200-2201'') [] = Inr [1800, 2200, 2201]
   \<and> [1800, 2200, 2201] \<noteq> ([]::int list)
   \<and> \<not> year_in_bounds 1800 \<and> \<not> year_in_bounds 2200 \<and> \<not> year_in_bounds 2201
   \<and> parse_years 4300 2026 ''1800'' = Inr []
   \<and> parse_years 4300 2026 ''1800,2200-2201'' = Inr []
   \<and> set (build_wordlist id None [''Rex''] [] [''''] True 50000)
       \<subseteq> set (expanded_joined (tokenize_inputs None [''Rex'']) [''''] True)"
  using parse_years_can_be_empty [of id 4300 2026 "''1800,2200-2201''" "[1800, 2200, 2201]" None "[''Rex'']" "['''']" True 50000]
    out_of_bounds_example
  by (simp add: year_in_bounds_def)

section \<open>The fallback strength values\<close>

lemma entropy_term_value:
  assumes "0 < c" and "0 < n"
  shows "entropy_term c n = Inr (real c / real n * log 2 (real c / real n))"
proof -
  have "0 < real c / real n" using assms by simp
  then have "\<not> real c / real n \<le> 0" by linarith
  then show ?thesis using assms by (simp add: entropy_term_def py_truediv_def math_log2_def)
qed

lemma entropy_term_nonpos:
  assumes "0 < c" and "c \<le> n"
  shows "real c / real n * log 2 (real c / real n) \<le> 0"
proof -
  have p: "0 < real c / real n" and q: "real c / real n \<le> 1" using assms by simp_all
  then have l: "log 2 (real c / real n) \<le> 0" by simp
  from p have "0 \<le> real c / real n" by simp
  then show ?thesis using l by (rule mult_nonneg_nonpos)
qed

lemma sum_from_value:
  assumes "\<forall>c \<in> set cs. 0 < c" and "0 < n"
  shows "sum_from acc (map (\<lambda>c. entropy_term c n) cs)
         = Inr (acc + (\<Sum>c\<leftarrow>cs. real c / real n * log 2 (real c / real n)))"
  using assms by (induction cs arbitrary: acc) (simp_all add: entropy_term_value add.assoc)

lemma count_list_pos: "x \<in> set xs \<Longrightarrow> 0 < count_list xs x"
  using count_list_0_iff [of xs x] by simp

lemma freq_positive: "\<forall>c \<in> set (map (count_list pw) (remdups pw)). 0 < c"
  by (simp add: count_list_pos)

lemma shannon_entropy_value:
  "shannon_entropy pw = Inr (if pw = [] then 0 else - entropy_sum pw * real (length pw))"
proof (cases "pw = []")
  case True
  then show ?thesis by (simp add: shannon_entropy_def)
next
  case False
  then have "0 < length pw" by simp
  then have "sum_from 0 (map (\<lambda>c. entropy_term c (length pw)) (map (count_list pw) (remdups pw)))
             = Inr (0 + entropy_sum pw)"
    unfolding entropy_sum_def using freq_positive by (rule sum_from_value [rotated])
  then show ?thesis using False by (simp add: shannon_entropy_def Let_def del: map_map)
qed

lemma entropy_sum_nonpos: "entropy_sum pw \<le> 0"
  unfolding entropy_sum_def
proof (rule sum_list_nonpos)
  fix x
  assume "x \<in> set (map (\<lambda>c. real c / real (length pw) * log 2 (real c / real (length pw)))
                      (map (count_list pw) (remdups pw)))"
  then obtain ch where ch: "ch \<in> set pw"
    and x: "x = real (count_list pw ch) / real (length pw) * log 2 (real (count_list pw ch) / real (length pw))"
    by auto
  have "0 < count_list pw ch" using ch by (rule count_list_pos)
  moreover have "count_list pw ch \<le> length pw" by (rule count_le_length)
  ultimately show "x \<le> 0" unfolding x by (rule entropy_term_nonpos)
qed

lemma shannon_entropy_nonneg: "\<exists>e. shannon_entropy pw = Inr e \<and> 0 \<le> e"
proof -
  have "entropy_sum pw * real (length pw) \<le> 0"
    by (rule mult_nonpos_nonneg) (simp_all add: entropy_sum_nonpos)
  then show ?thesis by (simp add: shannon_entropy_value)
qed

lemma char_space_or_1_pos: "1 \<le> char_space_or_1 pw"
  unfolding char_space_or_1_def Let_def by (cases "card (set pw)") (simp_all del: card_0_eq)

lemma naive_bits_value:
  "naive_bits pw = Inr (log 2 (real (char_space_or_1 pw)) * real (length pw))"
proof -
  have "\<not> real (char_space_or_1 pw) \<le> 0" using char_space_or_1_pos [of pw] by simp
  then show ?thesis unfolding naive_bits_def math_log2_def by simp
qed

lemma log2_char_space_nonneg: "0 \<le> log 2 (real (char_space_or_1 pw))"
  using char_space_or_1_pos [of pw] by simp

lemma naive_bits_nonneg: "\<exists>b. naive_bits pw = Inr b \<and> 0 \<le> b"
  using log2_char_space_nonneg [of pw] by (simp add: naive_bits_value)

text \<open>
  C4. For every password and every optional list of user inputs, when zxcvbn is not
  available \<^verbatim>\<open>analyze_password\<close> raises nothing: it returns a result whose score is
  \<^verbatim>\<open>min(4, int(naive_bits // 20))\<close>, computed by the fallback heuristic, and this score lies
  in the range 0..4 of the external scorer.
\<close>

theorem analyze_password_fallback:
  "\<exists>e nb. shannon_entropy pw = Inr e \<and> naive_bits pw = Inr nb
     \<and> analyze_password None pw user_inputs =
         Inr \<lparr>password = pw,
              score = min 4 \<lfloor>nb / 20\<rfloor>,
              crack_time_display = ''zxcvbn not installed; using heuristic'',
              feedback = ''Install zxcvbn for richer analysis'',
              entropy_bits = e\<rparr>
     \<and> 0 \<le> min 4 \<lfloor>nb / 20\<rfloor> \<and> min 4 \<lfloor>nb / 20\<rfloor> \<le> 4"
proof -
  obtain e where e: "shannon_entropy pw = Inr e" using shannon_entropy_nonneg by blast
  obtain nb where nb: "naive_bits pw = Inr nb" and pos: "0 \<le> nb" using naive_bits_nonneg by blast
  from pos have "0 \<le> \<lfloor>nb / 20\<rfloor>" by simp
  then have "0 \<le> min 4 \<lfloor>nb / 20\<rfloor> \<and> min 4 \<lfloor>nb / 20\<rfloor> \<le> 4" by simp
  then show ?thesis using e nb by (simp add: analyze_password_def)
qed

lemma char_space_or_1_mono:
  "card (set p) \<le> card (set q) \<Longrightarrow> char_space_or_1 p \<le> char_space_or_1 q"
  unfolding char_space_or_1_def Let_def by (simp del: card_0_eq)

lemma naive_bits_mono_chars:
  assumes "length p = length q" and "card (set p) \<le> card (set q)"
  shows "\<exists>x y. naive_bits p = Inr x \<and> naive_bits q = Inr y \<and> x \<le> y"
proof -
  have "real (char_space_or_1 p) \<le> real (char_space_or_1 q)"
    using char_space_or_1_mono [OF assms(2)] by simp
  moreover have "0 < real (char_space_or_1 p)" using char_space_or_1_pos [of p] by simp
  ultimately have "log 2 (real (char_space_or_1 p)) \<le> log 2 (real (char_space_or_1 q))"
    by simp
  then have "log 2 (real (char_space_or_1 p)) * real (length p)
             \<le> log 2 (real (char_space_or_1 q)) * real (length q)"
    using assms(1) by (simp add: mult_right_mono)
  then show ?thesis by (simp add: naive_bits_value)
qed

lemma naive_bits_mono_length:
  assumes "card (set p) = card (set q)" and "length p \<le> length q"
  shows "\<exists>x y. naive_bits p = Inr x \<and> naive_bits q = Inr y \<and> x \<le> y"
proof -
  have eq: "char_space_or_1 p = char_space_or_1 q" using assms(1) by (simp add: char_space_or_1_def)
  have "log 2 (real (char_space_or_1 q)) * real (length p)
        \<le> log 2 (real (char_space_or_1 q)) * real (length q)"
    using assms(2) log2_char_space_nonneg [of q] by (simp add: mult_left_mono)
  then show ?thesis by (simp add: naive_bits_value eq)
qed

text \<open>
  C5. The claim: for every password both fallback values, \<^verbatim>\<open>log2(distinct) * length\<close> and
  the Shannon entropy times the length, are non-negative, and they do not decrease when
  the number of distinct characters grows at a fixed length, nor when the length grows at
  a fixed number of distinct characters. As amended: both values are non-negative, and
  \<^verbatim>\<open>log2(distinct) * length\<close> does not decrease in either direction. (The Shannon value
  depends on how often each character occurs, not only on the two counts.)
\<close>

theorem fallback_values_monotone:
  "(\<exists>e. shannon_entropy pw = Inr e \<and> 0 \<le> e)
   \<and> (\<exists>b. naive_bits pw = Inr b \<and> 0 \<le> b)
   \<and> (length p = length q \<and> card (set p) \<le> card (set q) \<longrightarrow>
        (\<exists>x y. naive_bits p = Inr x \<and> naive_bits q = Inr y \<and> x \<le> y))
   \<and> (card (set p') = card (set q') \<and> length p' \<le> length q' \<longrightarrow>
        (\<exists>x y. naive_bits p' = Inr x \<and> naive_bits q' = Inr y \<and> x \<le> y))"
  using shannon_entropy_nonneg naive_bits_nonneg naive_bits_mono_chars naive_bits_mono_length
  by blast

theorem fallback_values_monotone_witness:
  "length ''aaaa'' = length ''abcd'' \<and> card (set ''aaaa'') \<le> card (set ''abcd'')
   \<and> card (set ''ab'') = card (set ''aabb'') \<and> length ''ab'' \<le> length ''aabb''
   \<and> (\<exists>e. shannon_entropy ''aabb'' = Inr e \<and> 0 \<le> e)
   \<and> (\<exists>b. naive_bits ''aabb'' = Inr b \<and> 0 \<le> b)
   \<and> (\<exists>x y. naive_bits ''aaaa'' = Inr x \<and> naive_bits ''abcd'' = Inr y \<and> x \<le> y)
   \<and> (\<exists>x y. naive_bits ''ab'' = Inr x \<and> naive_bits ''aabb'' = Inr y \<and> x \<le> y)"
proof -
  have h: "length ''aaaa'' = length ''abcd'' \<and> card (set ''aaaa'') \<le> card (set ''abcd'')"
    "card (set ''ab'') = card (set ''aabb'') \<and> length ''ab'' \<le> length ''aabb''"
    by simp_all
  show ?thesis
    using fallback_values_monotone [of "''aabb''" "''aaaa''" "''abcd''" "''ab''" "''aabb''"] h
    by blast
qed

lemma log2_half: "log 2 (1 / 2) = - 1"
  by (simp add: log_divide)

lemma log2_fifth: "log 2 (1 / 5) = - log 2 5"
  by (simp add: log_divide)

lemma log2_four: "log 2 4 = 2"
  using log_nat_power [of 2 2 2] by simp

lemma log2_four_fifths: "log 2 (4 / 5) = 2 - log 2 5"
  by (simp add: log_divide log2_four)

lemma log2_tenth: "log 2 (1 / 10) = - 1 - log 2 5"
proof -
  have "log 2 10 = log 2 (2 * 5)" by simp
  also have "\<dots> = 1 + log 2 5" by (subst log_mult) simp_all
  finally show ?thesis by (simp add: log_divide)
qed

lemma log2_five_bound: "5 * log 2 5 < (12::real)"
proof -
  have a: "log 2 3125 < log 2 4096" by simp
  have b: "log 2 3125 = 5 * log 2 5" using log_nat_power [of 5 2 5] by simp
  have c: "log 2 4096 = 12" using log_nat_power [of 2 2 12] by simp
  from a b c show ?thesis by simp
qed

lemma shannon_aabb: "shannon_entropy ''aabb'' = Inr 4"
  by (simp add: shannon_entropy_value entropy_sum_def log2_half)

lemma shannon_aaaab: "shannon_entropy ''aaaab'' = Inr (5 * log 2 5 - 8)"
  by (simp add: shannon_entropy_value entropy_sum_def log2_fifth log2_four_fifths field_simps)

lemma shannon_balanced: "shannon_entropy ''aaaaabbbbb'' = Inr 10"
  by (simp add: shannon_entropy_value entropy_sum_def log2_half)

lemma shannon_skewed: "shannon_entropy ''aaaaaaaabc'' = Inr (10 * log 2 5 - 14)"
  by (simp add: shannon_entropy_value entropy_sum_def log2_tenth log2_four_fifths field_simps)

text \<open>
  The Shannon value decreases from \<^verbatim>\<open>aabb\<close> to the longer \<^verbatim>\<open>aaaab\<close>, both of two distinct
  characters, and from \<^verbatim>\<open>aaaaabbbbb\<close> to \<^verbatim>\<open>aaaaaaaabc\<close>, of the same length and one more
  distinct character.
\<close>

theorem shannon_entropy_not_monotone:
  "card (set ''aabb'') = card (set ''aaaab'') \<and> length ''aabb'' \<le> length ''aaaab''
   \<and> shannon_entropy ''aabb'' = Inr 4
   \<and> shannon_entropy ''aaaab'' = Inr (5 * log 2 5 - 8)
   \<and> 5 * log 2 5 - 8 < (4::real)
   \<and> length ''aaaaabbbbb'' = length ''aaaaaaaabc''
   \<and> card (set ''aaaaabbbbb'') \<le> card (set ''aaaaaaaabc'')
   \<and> shannon_entropy ''aaaaabbbbb'' = Inr 10
   \<and> shannon_entropy ''aaaaaaaabc'' = Inr (10 * log 2 5 - 14)
   \<and> 10 * log 2 5 - 14 < (10::real)"
  using log2_five_bound
  by (simp add: shannon_aabb shannon_aaaab shannon_balanced shannon_skewed)

end
